theory Spec2Isabelle
  imports Complex_Main
begin

section \<open>Rendering of numbers\<close>

text \<open>
  The profiler of \<^verbatim>\<open>Project_MuonEDA/src/data_loading.py\<close> renders numbers with Python's
  \<^verbatim>\<open>str\<close>, \<^verbatim>\<open>:.2f\<close> and \<^verbatim>\<open>:.4g\<close>. Numeric cells are modelled as exact rationals: the
  rounding error of binary floating point is not part of the model, and a tie of the decimal
  rounding is resolved to the even digit, as Python does on the exact value of the float.
\<close>

definition digit_char :: "int \<Rightarrow> char" where
  "digit_char d = ''0123456789'' ! nat d"

function show_digits :: "int \<Rightarrow> string" where
  "show_digits i =
     (if i < 10 then [digit_char i] else show_digits (i div 10) @ [digit_char (i mod 10)])"
  by pat_completeness auto
termination
  by (relation "measure nat") auto

declare show_digits.simps [simp del]

text \<open>\<^verbatim>\<open>str(i)\<close> of a Python integer.\<close>

definition py_str_int :: "int \<Rightarrow> string" where
  "py_str_int i = (if i < 0 then ''-'' @ show_digits (- i) else show_digits i)"

definition round_half_even :: "rat \<Rightarrow> int" where
  "round_half_even x =
     (let f = \<lfloor>x\<rfloor>; r = x - of_int f
      in if r < 1 / 2 then f else if 1 / 2 < r then f + 1 else if even f then f else f + 1)"

definition zfill :: "nat \<Rightarrow> string \<Rightarrow> string" where
  "zfill w s = replicate (w - length s) (CHR ''0'') @ s"

text \<open>\<^verbatim>\<open>format(x, '.<p>f')\<close>: fixed notation with \<open>p\<close> digits after the point.\<close>

definition fmt_f :: "nat \<Rightarrow> rat \<Rightarrow> string" where
  "fmt_f p x =
     (let n = round_half_even (\<bar>x\<bar> * 10 ^ p)
      in (if x < 0 then ''-'' else '''') @ show_digits (n div 10 ^ p) @
         (if p = 0 then '''' else ''.'' @ zfill p (show_digits (n mod 10 ^ p))))"

definition pow10 :: "int \<Rightarrow> rat" where
  "pow10 e = (if 0 \<le> e then 10 ^ nat e else 1 / 10 ^ nat (- e))"

text \<open>The decimal exponent of a positive rational: the \<open>e\<close> with \<open>10^e \<le> x < 10^(e+1)\<close>.\<close>

definition exp10 :: "rat \<Rightarrow> int" where
  "exp10 x =
     (let (p, q) = quotient_of x;
          d = int (length (show_digits p)) - int (length (show_digits q))
      in if pow10 d \<le> x then d else d - 1)"

definition strip_zeros :: "string \<Rightarrow> string" where
  "strip_zeros s =
     (if CHR ''.'' \<in> set s
      then (let t = rev (dropWhile (\<lambda>c. c = CHR ''0'') (rev s))
            in if t \<noteq> [] \<and> last t = CHR ''.'' then butlast t else t)
      else s)"

text \<open>
  \<^verbatim>\<open>format(x, '.<P>g')\<close>: \<open>P\<close> significant digits; fixed notation when the exponent \<open>e\<close> of
  the rounded value has \<open>-4 \<le> e < P\<close>, scientific notation otherwise; trailing zeros of the
  significand are removed, and the point with them when nothing follows it.
\<close>

definition fmt_g :: "nat \<Rightarrow> rat \<Rightarrow> string" where
  "fmt_g P x =
     (if x = 0 then ''0''
      else
        let a = \<bar>x\<bar>;
            e0 = exp10 a;
            m0 = round_half_even (a / pow10 (e0 - int P + 1));
            e = (if m0 = 10 ^ P then e0 + 1 else e0);
            m = (if m0 = 10 ^ P then 10 ^ (P - 1) else m0);
            ds = show_digits m
        in if - 4 \<le> e \<and> e < int P
           then strip_zeros (fmt_f (nat (int P - 1 - e)) x)
           else (if x < 0 then ''-'' else '''') @
                strip_zeros (take 1 ds @ ''.'' @ drop 1 ds) @ ''e'' @
                (if e < 0 then ''-'' else ''+'') @ zfill 2 (show_digits \<bar>e\<bar>))"

section \<open>Columns\<close>

text \<open>
  A pandas \<^verbatim>\<open>Series\<close> as the cleaner produces it: an \<^verbatim>\<open>int64\<close> column (which cannot hold a
  missing entry), a \<^verbatim>\<open>float64\<close> column or an \<^verbatim>\<open>object\<close> column of strings; \<open>None\<close> is the
  missing marker (NaN). A single cell read from a column is a \<open>scalar\<close>.
\<close>

datatype scalar = IntV int | FloatV rat | StrV string | NaN

datatype series = Int64 "int list" | Float64 "rat option list" | Object "string option list"

fun cells :: "series \<Rightarrow> scalar list" where
  "cells (Int64 xs) = map IntV xs"
| "cells (Float64 xs) = map (case_option NaN FloatV) xs"
| "cells (Object xs) = map (case_option NaN StrV) xs"

text \<open>\<^verbatim>\<open>s.dropna()\<close>\<close>

fun dropna :: "series \<Rightarrow> series" where
  "dropna (Int64 xs) = Int64 xs"
| "dropna (Float64 xs) = Float64 (filter (\<lambda>c. c \<noteq> None) xs)"
| "dropna (Object xs) = Object (filter (\<lambda>c. c \<noteq> None) xs)"

text \<open>\<^verbatim>\<open>s.empty\<close>\<close>

definition empty_series :: "series \<Rightarrow> bool" where
  "empty_series s = (cells s = [])"

text \<open>\<^verbatim>\<open>pd.api.types.is_numeric_dtype(s)\<close> and \<^verbatim>\<open>str(s.dtype)\<close>\<close>

fun is_numeric_dtype :: "series \<Rightarrow> bool" where
  "is_numeric_dtype (Int64 xs) = True"
| "is_numeric_dtype (Float64 xs) = True"
| "is_numeric_dtype (Object xs) = False"

fun dtype_name :: "series \<Rightarrow> string" where
  "dtype_name (Int64 xs) = ''int64''"
| "dtype_name (Float64 xs) = ''float64''"
| "dtype_name (Object xs) = ''object''"

text \<open>\<^verbatim>\<open>s.nunique()\<close>: the number of distinct entries, the missing ones not counted.\<close>

definition nunique :: "series \<Rightarrow> nat" where
  "nunique s = length (remdups (filter (\<lambda>c. c \<noteq> NaN) (cells s)))"

text \<open>\<^verbatim>\<open>s.iloc[i]\<close>; the profiler reads position 0 of a column it has found non-empty.\<close>

definition iloc :: "series \<Rightarrow> nat \<Rightarrow> scalar" where
  "iloc s i = cells s ! i"

text \<open>
  \<^verbatim>\<open>str(v)\<close> of a cell. The shortest round-trip rendering of a float depends on its binary
  representation, so it is a parameter \<open>float_str\<close> of the model.
\<close>

fun py_str :: "(rat \<Rightarrow> string) \<Rightarrow> scalar \<Rightarrow> string" where
  "py_str float_str (IntV i) = py_str_int i"
| "py_str float_str (FloatV r) = float_str r"
| "py_str float_str (StrV t) = t"
| "py_str float_str NaN = ''nan''"

text \<open>The numbers of a numeric column, missing entries skipped (an object column has none).\<close>

fun num_of :: "scalar \<Rightarrow> rat option" where
  "num_of (IntV i) = Some (of_int i)"
| "num_of (FloatV r) = Some r"
| "num_of (StrV t) = None"
| "num_of NaN = None"

definition num_values :: "series \<Rightarrow> rat list" where
  "num_values s = List.map_filter num_of (cells s)"

text \<open>\<^verbatim>\<open>s.max()\<close> and \<^verbatim>\<open>s.min()\<close> of a numeric column; \<open>None\<close> is the NaN of an empty one.\<close>

fun list_max :: "rat list \<Rightarrow> rat option" where
  "list_max [] = None"
| "list_max (x # xs) = Some (fold max xs x)"

fun list_min :: "rat list \<Rightarrow> rat option" where
  "list_min [] = None"
| "list_min (x # xs) = Some (fold min xs x)"

definition series_max :: "series \<Rightarrow> rat option" where
  "series_max s = list_max (num_values s)"

definition series_min :: "series \<Rightarrow> rat option" where
  "series_min s = list_min (num_values s)"

text \<open>\<^verbatim>\<open>float(s.max()) - float(s.min())\<close>; NaN when the column is empty.\<close>

definition value_range :: "series \<Rightarrow> rat option" where
  "value_range s =
     (case series_max s of
        None \<Rightarrow> None
      | Some mx \<Rightarrow> (case series_min s of None \<Rightarrow> None | Some mn \<Rightarrow> Some (mx - mn)))"

text \<open>Comparisons with a possibly-NaN left operand: every comparison with NaN is false.\<close>

fun nan_le :: "rat option \<Rightarrow> rat \<Rightarrow> bool" where
  "nan_le None c = False"
| "nan_le (Some x) c = (x \<le> c)"

fun nan_gt :: "rat option \<Rightarrow> rat \<Rightarrow> bool" where
  "nan_gt None c = False"
| "nan_gt (Some x) c = (c < x)"

text \<open>
  \<^verbatim>\<open>s.eq(0).mean()\<close>: the number of entries equal to zero over the number of all entries of
  \<open>s\<close> (a missing entry is not equal to zero); NaN when \<open>s\<close> has no entry.
\<close>

fun is_zero :: "scalar \<Rightarrow> bool" where
  "is_zero (IntV i) = (i = 0)"
| "is_zero (FloatV r) = (r = 0)"
| "is_zero (StrV t) = False"
| "is_zero NaN = False"

definition eq0_mean :: "series \<Rightarrow> rat option" where
  "eq0_mean s =
     (if cells s = [] then None
      else Some (of_nat (length (filter is_zero (cells s))) / of_nat (length (cells s))))"

text \<open>\<^verbatim>\<open>s.is_monotonic_increasing\<close> and \<^verbatim>\<open>s.is_monotonic_decreasing\<close> (not strict).\<close>

fun non_decreasing :: "rat list \<Rightarrow> bool" where
  "non_decreasing (x # y # zs) = (x \<le> y \<and> non_decreasing (y # zs))"
| "non_decreasing zs = True"

fun non_increasing :: "rat list \<Rightarrow> bool" where
  "non_increasing (x # y # zs) = (y \<le> x \<and> non_increasing (y # zs))"
| "non_increasing zs = True"

definition is_monotonic_increasing :: "series \<Rightarrow> bool" where
  "is_monotonic_increasing s = non_decreasing (num_values s)"

definition is_monotonic_decreasing :: "series \<Rightarrow> bool" where
  "is_monotonic_decreasing s = non_increasing (num_values s)"

section \<open>The statistic helpers\<close>

text \<open>\<^verbatim>\<open>_monotonic_hint\<close>, \<^verbatim>\<open>_zero_fraction\<close> and \<^verbatim>\<open>_constant_hint\<close>.\<close>

definition monotonic_hint :: "series \<Rightarrow> string" where
  "monotonic_hint s0 =
     (let s = dropna s0
      in if empty_series s then ''empty''
         else if \<not> is_numeric_dtype s then ''n/a''
         else
           let inc = is_monotonic_increasing s;
               dec = is_monotonic_decreasing s
           in if inc \<and> \<not> dec then ''monotonic_increasing''
              else if dec \<and> \<not> inc then ''monotonic_decreasing''
              else ''not_monotonic'')"

definition zero_fraction :: "series \<Rightarrow> string" where
  "zero_fraction s0 =
     (let s = dropna s0
      in if empty_series s \<or> \<not> is_numeric_dtype s then ''n/a''
         else (case eq0_mean s of
                 None \<Rightarrow> ''nan%''
               | Some m \<Rightarrow> fmt_f 2 (m * 100) @ ''%''))"

definition near_constant :: "nat \<Rightarrow> rat option \<Rightarrow> string option" where
  "near_constant nun rng =
     (case rng of
        None \<Rightarrow> None
      | Some r \<Rightarrow>
          if r \<le> 1 / 2
          then Some (''near_constant(nunique='' @ py_str_int (int nun) @ '', range='' @
                     fmt_g 4 r @ '')'')
          else None)"

definition constant_hint :: "(rat \<Rightarrow> string) \<Rightarrow> series \<Rightarrow> string" where
  "constant_hint float_str s =
     (let s2 = dropna s
      in if empty_series s2 then ''empty''
         else
           let nun = nunique s2
           in if nun = 1 then ''constant('' @ py_str float_str (iloc s2 0) @ '')''
              else
                (case (if is_numeric_dtype s2 \<and> nun \<le> 5
                       then near_constant nun (value_range s2) else None) of
                   Some hint \<Rightarrow> hint
                 | None \<Rightarrow>
                     if nun \<le> 3
                     then ''low_cardinality(nunique='' @ py_str_int (int nun) @ '')''
                     else ''varies''))"

section \<open>The role hypothesis\<close>

text \<open>The closure \<^verbatim>\<open>possible_role\<close> of \<^verbatim>\<open>build_schema_report\<close>.\<close>

definition possible_role :: "string \<Rightarrow> series \<Rightarrow> string" where
  "possible_role col s =
     (if col = ''col_9'' \<and> nunique s = 1 then ''label/type (constant category)''
      else if is_numeric_dtype s then
        (if nunique s = 1 then ''constant sensor/setting (e.g., fixed parameter)''
         else
           let s_num = dropna s
           in if nunique s_num \<le> 5 \<and> nan_le (value_range s_num) (1 / 2)
              then ''near-constant reading (low variation)''
              else if zero_fraction s \<noteq> ''n/a'' \<and> nan_gt (eq0_mean s) (95 / 100)
              then ''flag/status/unused channel (mostly zeros)''
              else if monotonic_hint s = ''monotonic_increasing''
              then ''counter or time-like variable (monotonic)''
              else ''unknown'')
      else ''unknown'')"

text \<open>
  The rules of \<^verbatim>\<open>possible_role\<close> as an ordered list of guard and label, in the order of the
  source, and the evaluation of such a list: the first rule whose guard holds gives the label.
\<close>

fun first_match :: "(bool \<times> string) list \<Rightarrow> string \<Rightarrow> string" where
  "first_match [] d = d"
| "first_match ((c, l) # rules) d = (if c then l else first_match rules d)"

definition role_rules :: "string \<Rightarrow> series \<Rightarrow> (bool \<times> string) list" where
  "role_rules col s =
     [(col = ''col_9'' \<and> nunique s = 1, ''label/type (constant category)''),
      (is_numeric_dtype s \<and> nunique s = 1, ''constant sensor/setting (e.g., fixed parameter)''),
      (is_numeric_dtype s \<and> nunique (dropna s) \<le> 5 \<and> nan_le (value_range (dropna s)) (1 / 2),
       ''near-constant reading (low variation)''),
      (is_numeric_dtype s \<and> zero_fraction s \<noteq> ''n/a'' \<and> nan_gt (eq0_mean s) (95 / 100),
       ''flag/status/unused channel (mostly zeros)''),
      (is_numeric_dtype s \<and> monotonic_hint s = ''monotonic_increasing'',
       ''counter or time-like variable (monotonic)'')]"

section \<open>Tables\<close>

text \<open>
  A pandas \<^verbatim>\<open>DataFrame\<close>: the number of rows (\<^verbatim>\<open>df.shape[0]\<close>) and the columns in their order,
  each with its label. \<^verbatim>\<open>df[col]\<close> is a column when the label selects exactly one; \<open>None\<close>
  stands for the label that selects none (a \<^verbatim>\<open>KeyError\<close>) or several (pandas then hands back
  a table, on which the next operation of the code raises).
\<close>

record frame =
  nrows :: nat
  columns :: "(string \<times> series) list"

definition getitem :: "frame \<Rightarrow> string \<Rightarrow> series option" where
  "getitem df col =
     (case filter (\<lambda>(n, s). n = col) (columns df) of
        [(n, s)] \<Rightarrow> Some s
      | _ \<Rightarrow> None)"

section \<open>The schema report\<close>

text \<open>
  \<^verbatim>\<open>build_schema_report\<close>. A formatted minimum or maximum of an empty column would be
  \<^verbatim>\<open>nan\<close>; the code formats them only for a non-empty column. \<open>summary_row\<close> is the body of
  the loop over the columns up to the line it appends, \<open>report_header\<close> and
  \<open>report_notes\<close> are the lines appended before and after the loop, \<open>report_rows\<close> is the
  loop, and \<open>join_lines\<close> joins the lines with a newline between them.
\<close>

fun fmt_g_nan :: "nat \<Rightarrow> rat option \<Rightarrow> string" where
  "fmt_g_nan P None = ''nan''"
| "fmt_g_nan P (Some x) = fmt_g P x"

definition summary_row :: "(rat \<Rightarrow> string) \<Rightarrow> string \<Rightarrow> series \<Rightarrow> string" where
  "summary_row float_str col s =
     (let dtype = dtype_name s;
          nun = nunique (dropna s);
          (mn, mx, zf, mono) =
            (if is_numeric_dtype s then
               let s_num = dropna s
               in (if \<not> empty_series s_num then fmt_g_nan 4 (series_min s_num) else '''',
                   if \<not> empty_series s_num then fmt_g_nan 4 (series_max s_num) else '''',
                   zero_fraction s,
                   monotonic_hint s)
             else ('''', '''', ''n/a'', ''n/a''));
          const_hint = constant_hint float_str s;
          role = possible_role col s
      in ''| '' @ col @ '' | '' @ dtype @ '' | '' @ py_str_int (int nun) @ '' | '' @ mn @
         '' | '' @ mx @ '' | '' @ zf @ '' | '' @ mono @ '' | '' @ const_hint @ '' | '' @
         role @ '' |'')"

definition report_header :: "frame \<Rightarrow> string list" where
  "report_header df =
     [''# MuNRa dataset schema report'',
      '''',
      ''**Important:** This report is *functional/technical* profiling only.'',
      ''It does **not** assign physical meaning definitively. Any 'possible role' is a hypothesis.'',
      '''',
      ''- Rows: **'' @ py_str_int (int (nrows df)) @ ''**'',
      ''- Columns: **'' @ py_str_int (int (length (columns df))) @ ''**'',
      '''',
      ''## Column summary'',
      '''',
      ''| column | dtype | nunique | min | max | % zeros | monotonic | const/low-card | possible role (hypothesis) |'',
      ''|---|---:|---:|---:|---:|---:|---:|---:|---|'']"

definition report_notes :: "string list" where
  "report_notes =
     ['''',
      ''## Notes / next steps'',
      '''',
      ''- If a column is monotonic increasing, it is often a counter or timestamp-like field.'',
      ''- If a column is constant (or low-cardinality), it may be a fixed sensor reading or a configuration parameter.'',
      ''- If a column is mostly zeros, it may be a flag/channel not used in this measurement setup.'',
      ''- Definitive physical mapping should be done by comparing with device documentation and checking expected units/ranges.'',
      '''']"

fun report_rows :: "(rat \<Rightarrow> string) \<Rightarrow> frame \<Rightarrow> string list \<Rightarrow> string list \<Rightarrow> string list option" where
  "report_rows float_str df [] lines = Some lines"
| "report_rows float_str df (col # cols) lines =
     (case getitem df col of
        None \<Rightarrow> None
      | Some s \<Rightarrow> report_rows float_str df cols (lines @ [summary_row float_str col s]))"

fun join_lines :: "string list \<Rightarrow> string" where
  "join_lines [] = []"
| "join_lines [l] = l"
| "join_lines (l # ls) = l @ [CHR 0x0A] @ join_lines ls"

definition build_schema_report :: "(rat \<Rightarrow> string) \<Rightarrow> frame \<Rightarrow> string option" where
  "build_schema_report float_str df =
     (case report_rows float_str df (map fst (columns df)) (report_header df) of
        None \<Rightarrow> None
      | Some lines \<Rightarrow> Some (join_lines (lines @ report_notes)))"

section \<open>Structural cleaning\<close>

text \<open>
  \<^verbatim>\<open>pd.to_numeric(s, errors=coerce)\<close>: a numeric column is returned as it is; each string
  of an object column is parsed, and what cannot be parsed becomes the missing marker. The
  result is an \<^verbatim>\<open>int64\<close> column when every entry parsed to an integer and a \<^verbatim>\<open>float64\<close>
  column otherwise. The parser of number literals is a parameter \<open>parse\<close> of the model.
\<close>

datatype num = NInt int | NFloat rat

fun rat_of_num :: "num \<Rightarrow> rat" where
  "rat_of_num (NInt i) = of_int i"
| "rat_of_num (NFloat r) = r"

fun parsed_int :: "num option \<Rightarrow> int option" where
  "parsed_int (Some (NInt i)) = Some i"
| "parsed_int p = None"

definition to_numeric :: "(string \<Rightarrow> num option) \<Rightarrow> series \<Rightarrow> series" where
  "to_numeric parse s =
     (case s of
        Int64 xs \<Rightarrow> Int64 xs
      | Float64 xs \<Rightarrow> Float64 xs
      | Object xs \<Rightarrow>
          (let ps = map (\<lambda>c. Option.bind c parse) xs
           in if list_all (\<lambda>p. parsed_int p \<noteq> None) ps
              then Int64 (List.map_filter parsed_int ps)
              else Float64 (map (map_option rat_of_num) ps)))"

text \<open>
  \<^verbatim>\<open>str.strip()\<close> removes leading and trailing whitespace; \<open>isspace\<close> lists the characters
  below 256 that Python counts as whitespace. \<^verbatim>\<open>s.astype(str)\<close> renders every cell with
  \<^verbatim>\<open>str\<close>, a missing one as \<^verbatim>\<open>nan\<close>; \<^verbatim>\<open>.str.strip()\<close> strips every string of an object
  column.
\<close>

definition isspace :: "char \<Rightarrow> bool" where
  "isspace c = (c \<in> set [CHR 0x09, CHR 0x0A, CHR 0x0B, CHR 0x0C, CHR 0x0D, CHR 0x1C, CHR 0x1D,
                          CHR 0x1E, CHR 0x1F, CHR 0x20, CHR 0x85, CHR 0xA0])"

definition strip :: "string \<Rightarrow> string" where
  "strip t = rev (dropWhile isspace (rev (dropWhile isspace t)))"

definition astype_str :: "(rat \<Rightarrow> string) \<Rightarrow> series \<Rightarrow> series" where
  "astype_str float_str s = Object (map (\<lambda>c. Some (py_str float_str c)) (cells s))"

fun str_strip :: "series \<Rightarrow> series" where
  "str_strip (Object xs) = Object (map (map_option strip) xs)"
| "str_strip s = s"

text \<open>
  \<^verbatim>\<open>df[col] = s\<close> replaces the column of that label, or appends a new column when there is
  none.
\<close>

definition setitem :: "frame \<Rightarrow> string \<Rightarrow> series \<Rightarrow> frame" where
  "setitem df col s =
     (if col \<in> set (map fst (columns df))
      then df\<lparr>columns := map (\<lambda>(n, old). if n = col then (n, s) else (n, old)) (columns df)\<rparr>
      else df\<lparr>columns := columns df @ [(col, s)]\<rparr>)"

text \<open>
  Tables are mutable objects: the heap holds the tables by address, a table variable is an
  address, \<^verbatim>\<open>df.copy()\<close> allocates a new table with the same content (a deep copy: a table
  holds its columns by value), and \<^verbatim>\<open>out[c] = ...\<close> updates the table at the address
  \<open>out\<close> in place.
\<close>

type_synonym heap = "frame list"

definition df_copy :: "heap \<Rightarrow> nat \<Rightarrow> heap \<times> nat" where
  "df_copy h df = (h @ [h ! df], length h)"

text \<open>
  \<^verbatim>\<open>basic_structural_clean\<close>: \<open>clean_column\<close> is the right-hand side of the assignment in
  the loop body, \<open>clean_loop\<close> the loop over \<^verbatim>\<open>out.columns\<close>.
\<close>

definition clean_column ::
  "(string \<Rightarrow> num option) \<Rightarrow> (rat \<Rightarrow> string) \<Rightarrow> string \<Rightarrow> series \<Rightarrow> series" where
  "clean_column parse float_str c s =
     (if c = ''col_9'' then str_strip (astype_str float_str s) else to_numeric parse s)"

fun clean_loop ::
  "(string \<Rightarrow> num option) \<Rightarrow> (rat \<Rightarrow> string) \<Rightarrow> string list \<Rightarrow> heap \<Rightarrow> nat \<Rightarrow> heap option" where
  "clean_loop parse float_str [] h out = Some h"
| "clean_loop parse float_str (c # cs) h out =
     (case getitem (h ! out) c of
        None \<Rightarrow> None
      | Some s \<Rightarrow>
          clean_loop parse float_str cs
            (h[out := setitem (h ! out) c (clean_column parse float_str c s)]) out)"

definition basic_structural_clean ::
  "(string \<Rightarrow> num option) \<Rightarrow> (rat \<Rightarrow> string) \<Rightarrow> heap \<Rightarrow> nat \<Rightarrow> (heap \<times> nat) option" where
  "basic_structural_clean parse float_str h df =
     (let (h1, out) = df_copy h df
      in case clean_loop parse float_str (map fst (columns (h1 ! out))) h1 out of
           None \<Rightarrow> None
         | Some h2 \<Rightarrow> Some (h2, out))"

text \<open>A string with no whitespace at either end.\<close>

definition stripped :: "string \<Rightarrow> bool" where
  "stripped t = (t = [] \<or> (\<not> isspace (hd t) \<and> \<not> isspace (last t)))"

section \<open>Basic facts about columns\<close>

lemma is_numeric_dropna [simp]: "is_numeric_dtype (dropna s) = is_numeric_dtype s"
  by (cases s) simp_all

lemma num_values_dropna [simp]: "num_values (dropna s) = num_values s"
proof (cases s)
  case (Int64 xs)
  then show ?thesis by simp
next
  case (Float64 xs)
  have "List.map_filter num_of (map (case_option NaN FloatV) (filter (\<lambda>c. c \<noteq> None) xs))
      = List.map_filter num_of (map (case_option NaN FloatV) xs)"
    by (induction xs) (auto simp: List.map_filter_simps split: option.splits)
  with Float64 show ?thesis by (simp add: num_values_def)
next
  case (Object xs)
  have "List.map_filter num_of (map (case_option NaN StrV) ys) = []" for ys
    by (induction ys) (auto simp: List.map_filter_simps split: option.splits)
  with Object show ?thesis by (simp add: num_values_def)
qed

lemma numeric_empty_iff:
  "is_numeric_dtype s \<Longrightarrow> empty_series (dropna s) \<longleftrightarrow> num_values s = []"
proof (cases s)
  case (Int64 xs)
  then show ?thesis
    by (simp add: empty_series_def num_values_def List.map_filter_def)
next
  case (Float64 xs)
  have "filter (\<lambda>c. c \<noteq> None) xs = [] \<longleftrightarrow>
        List.map_filter num_of (map (case_option NaN FloatV) xs) = []"
    by (induction xs) (auto simp: List.map_filter_simps split: option.splits)
  with Float64 show ?thesis by (simp add: empty_series_def num_values_def)
next
  case (Object xs)
  assume "is_numeric_dtype s"
  with Object show ?thesis by simp
qed

lemma cells_dropna: "cells (dropna s) = filter (\<lambda>c. c \<noteq> NaN) (cells s)"
proof (cases s)
  case (Int64 xs)
  then show ?thesis by (induction xs arbitrary: s) auto
next
  case (Float64 xs)
  have "map (case_option NaN FloatV) (filter (\<lambda>c. c \<noteq> None) xs)
      = filter (\<lambda>c. c \<noteq> NaN) (map (case_option NaN FloatV) xs)"
    by (induction xs) (auto split: option.splits)
  with Float64 show ?thesis by simp
next
  case (Object xs)
  have "map (case_option NaN StrV) (filter (\<lambda>c. c \<noteq> None) xs)
      = filter (\<lambda>c. c \<noteq> NaN) (map (case_option NaN StrV) xs)"
    by (induction xs) (auto split: option.splits)
  with Object show ?thesis by simp
qed

lemma nunique_dropna [simp]: "nunique (dropna s) = nunique s"
  by (simp add: nunique_def cells_dropna)

lemma nunique_empty: "empty_series (dropna s) \<Longrightarrow> nunique s = 0"
  by (simp add: nunique_def empty_series_def cells_dropna)

lemma num_values_empty:
  assumes "empty_series (dropna s)"
  shows "num_values s = []"
proof -
  have "List.map_filter num_of (cells (dropna s)) = []"
    using assms by (simp add: empty_series_def List.map_filter_simps)
  then have "num_values (dropna s) = []" unfolding num_values_def .
  then show ?thesis by simp
qed

lemma value_range_empty: "num_values s = [] \<Longrightarrow> value_range s = None"
  by (simp add: value_range_def series_max_def)

lemma fmt_percent_not_na: "xs @ ''%'' \<noteq> ''n/a''"
proof
  assume "xs @ ''%'' = ''n/a''"
  then have "last (xs @ ''%'') = last ''n/a''" by simp
  then show False by simp
qed

lemma zero_fraction_na_iff:
  "zero_fraction s = ''n/a'' \<longleftrightarrow> empty_series (dropna s) \<or> \<not> is_numeric_dtype s"
  using fmt_percent_not_na
  by (auto simp: zero_fraction_def Let_def split: option.splits)

lemma remdups_constant:
  assumes "xs \<noteq> []" and "\<forall>x\<in>set xs. x = c"
  shows "length (remdups xs) = 1"
proof -
  from assms have "set xs = {c}" by (cases xs) auto
  then have "card (set xs) = 1" by simp
  then show ?thesis by (simp add: length_remdups_card_conv)
qed

text \<open>The non-missing cells of a numeric column and its numbers.\<close>

lemma num_values_Int64: "num_values (Int64 xs) = map of_int xs"
  unfolding num_values_def by (induction xs) (simp_all add: List.map_filter_simps)

lemma num_values_Float64: "num_values (Float64 xs) = map the (filter (\<lambda>c. c \<noteq> None) xs)"
  unfolding num_values_def by (induction xs) (auto simp: List.map_filter_simps)

lemma present_Int64: "filter (\<lambda>c. c \<noteq> NaN) (cells (Int64 xs)) = map IntV xs"
  by (induction xs) simp_all

lemma present_Float64:
  "filter (\<lambda>c. c \<noteq> NaN) (cells (Float64 xs)) = map FloatV (map the (filter (\<lambda>c. c \<noteq> None) xs))"
  by (induction xs) auto

lemma length_num_values:
  "is_numeric_dtype s \<Longrightarrow> length (num_values s) = length (filter (\<lambda>c. c \<noteq> NaN) (cells s))"
  by (cases s) (simp_all only: num_values_Int64 num_values_Float64 present_Int64 present_Float64 length_map is_numeric_dtype.simps)

lemma zero_cells:
  assumes "is_numeric_dtype s" and "\<forall>x\<in>set (num_values s). x = 0"
  shows "filter is_zero (cells s) = filter (\<lambda>c. c \<noteq> NaN) (cells s)"
proof (cases s)
  case (Int64 xs)
  with assms(2) have "\<forall>i\<in>set xs. i = 0" by (auto simp: num_values_Int64)
  then have "filter is_zero (map IntV xs) = filter (\<lambda>c. c \<noteq> NaN) (map IntV xs)"
    by (induction xs) auto
  with Int64 show ?thesis by simp
next
  case (Float64 xs)
  have "\<forall>c\<in>set xs. c = None \<or> c = Some 0"
  proof
    fix c
    assume c: "c \<in> set xs"
    show "c = None \<or> c = Some 0"
    proof (cases c)
      case None
      then show ?thesis by simp
    next
      case (Some y)
      with c Float64 have "y \<in> set (num_values s)"
        by (force simp: num_values_Float64)
      with assms(2) Some show ?thesis by simp
    qed
  qed
  then have "filter is_zero (map (case_option NaN FloatV) xs)
           = filter (\<lambda>c. c \<noteq> NaN) (map (case_option NaN FloatV) xs)"
    by (induction xs) auto
  with Float64 show ?thesis by simp
next
  case (Object xs)
  with assms(1) show ?thesis by simp
qed

lemma zero_nunique:
  assumes "is_numeric_dtype s" and "num_values s \<noteq> []" and "\<forall>x\<in>set (num_values s). x = 0"
  shows "nunique s = 1"
proof (cases s)
  case (Int64 xs)
  with assms have "map IntV xs \<noteq> []" "\<forall>c\<in>set (map IntV xs). c = IntV 0"
    by (auto simp: num_values_Int64)
  then have "length (remdups (map IntV xs)) = 1" by (rule remdups_constant)
  with Int64 show ?thesis by (simp only: nunique_def present_Int64)
next
  case (Float64 xs)
  let ?cs = "map FloatV (map the (filter (\<lambda>c. c \<noteq> None) xs))"
  from assms Float64 have "?cs \<noteq> []" "\<forall>c\<in>set ?cs. c = FloatV 0"
    by (auto simp: num_values_Float64)
  then have "length (remdups ?cs) = 1" by (rule remdups_constant)
  with Float64 show ?thesis by (simp only: nunique_def present_Float64)
next
  case (Object xs)
  with assms(1) show ?thesis by simp
qed

lemma fmt_f_100: "fmt_f 2 (1 * 100) = ''100.00''"
  by code_simp

lemma eq0_mean_rows:
  assumes "is_numeric_dtype s" and "num_values s \<noteq> []" and "\<forall>x\<in>set (num_values s). x = 0"
  shows "eq0_mean s = Some (of_nat (length (num_values s)) / of_nat (length (cells s)))"
proof -
  have "cells s \<noteq> []"
    using assms(2) by (auto simp: num_values_def List.map_filter_simps)
  moreover have "length (filter is_zero (cells s)) = length (num_values s)"
    using assms by (simp add: zero_cells length_num_values)
  ultimately show ?thesis by (simp add: eq0_mean_def)
qed

lemma zero_fraction_all_zero:
  assumes "is_numeric_dtype s" and "num_values s \<noteq> []" and "\<forall>x\<in>set (num_values s). x = 0"
  shows "zero_fraction s = ''100.00%''"
proof -
  let ?d = "dropna s"
  have num: "is_numeric_dtype ?d" "num_values ?d \<noteq> []" "\<forall>x\<in>set (num_values ?d). x = 0"
    using assms by simp_all
  have ne: "\<not> empty_series ?d" using assms by (simp add: numeric_empty_iff)
  have "length (num_values ?d) = length (cells ?d)"
    using num(1) by (simp add: length_num_values cells_dropna del: num_values_dropna is_numeric_dropna)
  moreover have "cells ?d \<noteq> []" using ne by (simp add: empty_series_def)
  ultimately have "eq0_mean ?d = Some 1"
    using eq0_mean_rows [OF num] by simp
  then show ?thesis
    using ne assms(1) fmt_f_100 by (simp add: zero_fraction_def)
qed

lemma series_max_dropna [simp]: "series_max (dropna s) = series_max s"
  by (simp add: series_max_def)

lemma series_min_dropna [simp]: "series_min (dropna s) = series_min s"
  by (simp add: series_min_def)

lemma value_range_dropna [simp]: "value_range (dropna s) = value_range s"
  unfolding value_range_def by (simp split: option.splits)

lemma round_half_even_bound: "\<bar>of_int (round_half_even x) - x\<bar> \<le> 1 / 2"
proof -
  have "of_int \<lfloor>x\<rfloor> \<le> x" "x < of_int \<lfloor>x\<rfloor> + 1" by linarith+
  then show ?thesis by (auto simp: round_half_even_def Let_def)
qed

lemma round_half_even_nonneg: "0 \<le> x \<Longrightarrow> 0 \<le> round_half_even x"
  by (auto simp: round_half_even_def Let_def)

lemma digit_char_0: "digit_char 0 = CHR ''0''"
  by (simp add: digit_char_def)

lemma two_digits:
  assumes "0 \<le> r" and "r < 100"
  shows "zfill 2 (show_digits r) = [digit_char (r div 10), digit_char (r mod 10)]"
proof (cases "r < 10")
  case True
  with assms show ?thesis by (simp add: show_digits.simps [of r] zfill_def digit_char_0)
next
  case False
  with assms have "r div 10 < 10" by simp
  with False show ?thesis
    by (simp add: show_digits.simps [of r] show_digits.simps [of "r div 10"] zfill_def)
qed

lemma fmt_f_2:
  assumes "0 \<le> x"
  shows "\<exists>q d1 d2. 0 \<le> q \<and> 0 \<le> d1 \<and> d1 \<le> 9 \<and> 0 \<le> d2 \<and> d2 \<le> 9
           \<and> fmt_f 2 x = show_digits q @ ''.'' @ [digit_char d1, digit_char d2]
           \<and> \<bar>(of_int q + of_int d1 / 10 + of_int d2 / 100) - x\<bar> \<le> 1 / 200"
proof -
  define n where "n = round_half_even (x * 100)"
  define r where "r = n mod 100"
  have n0: "0 \<le> n" unfolding n_def using assms by (intro round_half_even_nonneg) simp
  have r: "0 \<le> r" "r < 100" by (simp_all add: r_def)
  have fmt: "fmt_f 2 x = show_digits (n div 100) @ ''.'' @ [digit_char (r div 10), digit_char (r mod 10)]"
    using assms two_digits [OF r] by (simp add: fmt_f_def n_def r_def Let_def)
  have "n = 100 * (n div 100) + 10 * (r div 10) + r mod 10"
    unfolding r_def by presburger
  then have "(of_int n :: rat) = 100 * of_int (n div 100) + 10 * of_int (r div 10) + of_int (r mod 10)"
    by (metis (mono_tags) of_int_add of_int_mult of_int_numeral)
  moreover have "\<bar>of_int n - x * 100\<bar> \<le> 1 / 2"
    unfolding n_def by (rule round_half_even_bound)
  ultimately have "\<bar>(of_int (n div 100) + of_int (r div 10) / 10 + of_int (r mod 10) / 100) - x\<bar> \<le> 1 / 200"
    by (simp add: field_simps abs_le_iff)
  moreover have "0 \<le> n div 100" using n0 by simp
  moreover have "0 \<le> r div 10" "r div 10 \<le> 9" "0 \<le> r mod 10" "r mod 10 \<le> 9"
    using r by simp_all
  ultimately show ?thesis using fmt by blast
qed

lemma count_zero_cells:
  assumes "is_numeric_dtype s"
  shows "length (filter is_zero (cells (dropna s))) = length (filter (\<lambda>x. x = 0) (num_values s))"
proof (cases s)
  case (Int64 xs)
  have "length (filter is_zero (map IntV xs)) = length (filter (\<lambda>x. x = 0) (map rat_of_int xs))"
    by (induction xs) simp_all
  with Int64 show ?thesis by (simp add: num_values_Int64)
next
  case (Float64 xs)
  have "length (filter is_zero (map (case_option NaN FloatV) (filter (\<lambda>c. c \<noteq> None) xs)))
      = length (filter (\<lambda>x. x = 0) (map the (filter (\<lambda>c. c \<noteq> None) xs)))"
    by (induction xs) (auto split: option.splits)
  with Float64 show ?thesis by (simp only: num_values_Float64 dropna.simps cells.simps)
next
  case (Object xs)
  with assms show ?thesis by simp
qed

lemma zero_fraction_numeric:
  assumes "is_numeric_dtype s" and "num_values s \<noteq> []"
  shows "zero_fraction s =
           fmt_f 2 (of_nat (length (filter (\<lambda>x. x = 0) (num_values s))) /
                    of_nat (length (num_values s)) * 100) @ ''%''"
proof -
  let ?d = "dropna s"
  have ne: "\<not> empty_series ?d" using assms by (simp add: numeric_empty_iff)
  then have c: "cells ?d \<noteq> []" by (simp add: empty_series_def)
  have "length (cells ?d) = length (num_values s)"
    using assms(1) by (simp add: length_num_values cells_dropna)
  with c have "eq0_mean ?d = Some (of_nat (length (filter (\<lambda>x. x = 0) (num_values s))) /
                                  of_nat (length (num_values s)))"
    using count_zero_cells [OF assms(1)] by (simp add: eq0_mean_def)
  with ne assms(1) show ?thesis by (simp add: zero_fraction_def)
qed

lemma zf_example: "zero_fraction (Int64 [0, 0, 0, 0, 0, 0, 0, 0, 0, 0, 1]) = ''90.91%''"
  by code_simp

lemma possible_role_all_missing:
  assumes "empty_series (dropna s)"
  shows "possible_role col s = ''unknown''"
proof -
  have "nunique s = 0" using assms by (rule nunique_empty)
  moreover have "value_range (dropna s) = None"
    using assms by (simp add: value_range_empty num_values_empty)
  moreover have "zero_fraction s = ''n/a''" using assms by (simp add: zero_fraction_na_iff)
  moreover have "monotonic_hint s = ''empty''" using assms by (simp add: monotonic_hint_def)
  ultimately show ?thesis by (simp add: possible_role_def Let_def)
qed

lemma constant_non_decreasing: "set xs \<subseteq> {v} \<Longrightarrow> non_decreasing xs"
  by (induction xs rule: non_decreasing.induct) auto

lemma constant_non_increasing: "set xs \<subseteq> {v} \<Longrightarrow> non_increasing xs"
  by (induction xs rule: non_increasing.induct) auto

section \<open>Role hypothesis: the constant rule and the all-missing column\<close>




text \<open>
  Claim C6. For a column whose values are all missing, \<^verbatim>\<open>_monotonic_hint\<close> answers
  \<^verbatim>\<open>empty\<close>, \<^verbatim>\<open>_zero_fraction\<close> answers \<^verbatim>\<open>n/a\<close>, \<^verbatim>\<open>_constant_hint\<close> answers \<^verbatim>\<open>empty\<close> and
  \<^verbatim>\<open>possible_role\<close> answers \<^verbatim>\<open>unknown\<close>, whatever the column is called. The zero-fraction
  label is \<^verbatim>\<open>n/a\<close>, not \<^verbatim>\<open>not_applicable\<close>.
\<close>

theorem all_missing_fields:
  assumes "empty_series (dropna s)"
  shows "monotonic_hint s = ''empty'' \<and> zero_fraction s = ''n/a''
       \<and> constant_hint float_str s = ''empty'' \<and> possible_role col s = ''unknown''"
proof -
  have "zero_fraction s = ''n/a''" using assms by (simp add: zero_fraction_na_iff)
  moreover have "monotonic_hint s = ''empty''" using assms by (simp add: monotonic_hint_def)
  moreover have "constant_hint float_str s = ''empty''"
    using assms by (simp add: constant_hint_def)
  ultimately show ?thesis using possible_role_all_missing [OF assms] by simp
qed

theorem all_missing_fields_witness:
  "empty_series (dropna (Float64 [None, None, None]))
   \<and> monotonic_hint (Float64 [None, None, None]) = ''empty''
   \<and> zero_fraction (Float64 [None, None, None]) = ''n/a''
   \<and> constant_hint (\<lambda>r. []) (Float64 [None, None, None]) = ''empty''
   \<and> possible_role ''col_9'' (Float64 [None, None, None]) = ''unknown''"
  using all_missing_fields [of "Float64 [None, None, None]" "\<lambda>r. []" "''col_9''"]
  by (simp add: empty_series_def)

theorem all_missing_fields_counterexample:
  "empty_series (dropna (Float64 [None, None, None]))
   \<and> zero_fraction (Float64 [None, None, None]) \<noteq> ''not_applicable''"
  by (simp add: zero_fraction_def empty_series_def)

section \<open>Monotonicity hint\<close>

text \<open>
  Claim C3. A numeric column whose non-missing values are all one value \<open>v\<close> (and there is at
  least one of them) is both non-decreasing and non-increasing, so neither monotonic label
  applies and \<^verbatim>\<open>_monotonic_hint\<close> answers \<^verbatim>\<open>not_monotonic\<close>.
\<close>

theorem monotonic_hint_constant:
  assumes "is_numeric_dtype s" and "set (num_values s) = {v}"
  shows "monotonic_hint s = ''not_monotonic''
       \<and> is_monotonic_increasing (dropna s) \<and> is_monotonic_decreasing (dropna s)"
proof -
  from assms(2) have ne: "num_values s \<noteq> []" by auto
  with assms(1) have "\<not> empty_series (dropna s)" by (simp add: numeric_empty_iff)
  moreover have "non_decreasing (num_values s)" "non_increasing (num_values s)"
    using assms(2) by (simp_all add: constant_non_decreasing constant_non_increasing)
  ultimately show ?thesis
    using assms(1)
    by (simp add: monotonic_hint_def is_monotonic_increasing_def is_monotonic_decreasing_def)
qed

theorem monotonic_hint_constant_witness:
  "is_numeric_dtype (Float64 [Some 5, None, Some 5, Some 5])
   \<and> set (num_values (Float64 [Some 5, None, Some 5, Some 5])) = {5}
   \<and> monotonic_hint (Float64 [Some 5, None, Some 5, Some 5]) = ''not_monotonic''"
  using monotonic_hint_constant [of "Float64 [Some 5, None, Some 5, Some 5]" 5]
  by (simp add: num_values_def List.map_filter_simps)

text \<open>
  Claim C4. For a column of text kind with at least one non-missing value,
  \<^verbatim>\<open>_monotonic_hint\<close> answers the label \<^verbatim>\<open>n/a\<close>; the label \<^verbatim>\<open>not_applicable\<close> is not what the
  code returns.
\<close>

theorem monotonic_hint_text:
  assumes "\<not> is_numeric_dtype s" and "\<not> empty_series (dropna s)"
  shows "monotonic_hint s = ''n/a''"
  using assms by (simp add: monotonic_hint_def)

theorem monotonic_hint_text_witness:
  "\<not> is_numeric_dtype (Object [Some ''COSMIC'', None])
   \<and> \<not> empty_series (dropna (Object [Some ''COSMIC'', None]))
   \<and> monotonic_hint (Object [Some ''COSMIC'', None]) = ''n/a''"
  using monotonic_hint_text [of "Object [Some ''COSMIC'', None]"]
  by (simp add: empty_series_def)

theorem monotonic_hint_text_counterexample:
  "\<not> is_numeric_dtype (Object [Some ''COSMIC''])
   \<and> \<not> empty_series (dropna (Object [Some ''COSMIC'']))
   \<and> monotonic_hint (Object [Some ''COSMIC'']) \<noteq> ''not_applicable''"
  by (simp add: monotonic_hint_def empty_series_def)

section \<open>Constant and low-cardinality hint\<close>



section \<open>Zero fraction\<close>

text \<open>
  Claim C7. For a numeric column with at least one non-missing value, \<^verbatim>\<open>_zero_fraction\<close>
  renders the share of non-missing values equal to zero as a percentage with exactly two
  digits after the point: the digits of the integer part, a point, two decimal digits and
  the percent sign, and the number written is within half a unit of its last place of the
  exact percentage. The column \<^verbatim>\<open>[0,0,0,0,0,0,0,0,0,0,1]\<close> gives \<^verbatim>\<open>90.91%\<close>.
\<close>

theorem zero_fraction_two_decimals:
  assumes "is_numeric_dtype s" and "num_values s \<noteq> []"
  shows "(\<exists>q d1 d2. 0 \<le> q \<and> 0 \<le> d1 \<and> d1 \<le> 9 \<and> 0 \<le> d2 \<and> d2 \<le> 9
           \<and> zero_fraction s = show_digits q @ ''.'' @ [digit_char d1, digit_char d2] @ ''%''
           \<and> \<bar>(rat_of_int q + rat_of_int d1 / 10 + rat_of_int d2 / 100)
                - 100 * of_nat (length (filter (\<lambda>x. x = 0) (num_values s)))
                  / of_nat (length (num_values s))\<bar> \<le> 1 / 200)
       \<and> zero_fraction (Int64 [0, 0, 0, 0, 0, 0, 0, 0, 0, 0, 1]) = ''90.91%''"
proof -
  let ?x = "of_nat (length (filter (\<lambda>x. x = 0) (num_values s))) / of_nat (length (num_values s)) * (100::rat)"
  have "0 \<le> ?x" by simp
  from fmt_f_2 [OF this] obtain q d1 d2 where
    "0 \<le> q" "0 \<le> d1" "d1 \<le> 9" "0 \<le> d2" "d2 \<le> 9"
    "fmt_f 2 ?x = show_digits q @ ''.'' @ [digit_char d1, digit_char d2]"
    "\<bar>(of_int q + of_int d1 / 10 + of_int d2 / 100) - ?x\<bar> \<le> 1 / 200"
    by blast
  then have "0 \<le> q \<and> 0 \<le> d1 \<and> d1 \<le> 9 \<and> 0 \<le> d2 \<and> d2 \<le> 9
           \<and> zero_fraction s = show_digits q @ ''.'' @ [digit_char d1, digit_char d2] @ ''%''
           \<and> \<bar>(rat_of_int q + rat_of_int d1 / 10 + rat_of_int d2 / 100)
                - 100 * of_nat (length (filter (\<lambda>x. x = 0) (num_values s)))
                  / of_nat (length (num_values s))\<bar> \<le> 1 / 200"
    using zero_fraction_numeric [OF assms] by (simp add: mult.commute)
  then show ?thesis using zf_example by blast
qed

theorem zero_fraction_two_decimals_witness:
  "is_numeric_dtype (Int64 [0, 0, 0, 0, 0, 0, 0, 0, 0, 0, 1])
   \<and> num_values (Int64 [0, 0, 0, 0, 0, 0, 0, 0, 0, 0, 1]) \<noteq> []
   \<and> zero_fraction (Int64 [0, 0, 0, 0, 0, 0, 0, 0, 0, 0, 1]) = ''90.91%''"
  using zero_fraction_two_decimals [of "Int64 [0, 0, 0, 0, 0, 0, 0, 0, 0, 0, 1]"]
  by (simp add: num_values_Int64)

section \<open>The mostly-zeros rule\<close>



text \<open>
  Claim C5. The rule compares the share of zeros among all rows, not the zero-fraction the
  report shows. The column below has 20 zeros among its 21 non-missing values, so
  \<^verbatim>\<open>_zero_fraction\<close> reports \<^verbatim>\<open>95.24%\<close>; it matches neither the constant nor the near-constant
  rule; with its two missing rows the ratio tested is 20/23, and the role is \<^verbatim>\<open>unknown\<close>.
\<close>

theorem mostly_zeros_rule_misses_column:
  "is_numeric_dtype (Float64 ([Some 7] @ replicate 20 (Some 0) @ [None, None]))
   \<and> nunique (Float64 ([Some 7] @ replicate 20 (Some 0) @ [None, None])) = 2
   \<and> value_range (Float64 ([Some 7] @ replicate 20 (Some 0) @ [None, None])) = Some 7
   \<and> zero_fraction (Float64 ([Some 7] @ replicate 20 (Some 0) @ [None, None])) = ''95.24%''
   \<and> eq0_mean (dropna (Float64 ([Some 7] @ replicate 20 (Some 0) @ [None, None])))
       = Some (20 / 21)
   \<and> eq0_mean (Float64 ([Some 7] @ replicate 20 (Some 0) @ [None, None])) = Some (20 / 23)
   \<and> possible_role ''col_3'' (Float64 ([Some 7] @ replicate 20 (Some 0) @ [None, None]))
       = ''unknown''"
  by code_simp

section \<open>Report builder\<close>

lemma filter_label:
  "distinct (map fst xs) \<Longrightarrow> (c, s) \<in> set xs \<Longrightarrow> filter (\<lambda>(n, s). n = c) xs = [(c, s)]"
proof (induction xs)
  case Nil
  then show ?case by simp
next
  case (Cons x xs)
  show ?case
  proof (cases "x = (c, s)")
    case True
    with Cons.prems(1) have "\<forall>y\<in>set xs. fst y \<noteq> c" by force
    then have "filter (\<lambda>(n, s). n = c) xs = []" by (auto simp: filter_empty_conv)
    with True show ?thesis by simp
  next
    case False
    with Cons.prems have in_xs: "(c, s) \<in> set xs" and d: "distinct (map fst xs)" by auto
    from in_xs have "c \<in> fst ` set xs" by force
    with Cons.prems(1) have "fst x \<noteq> c" by auto
    with Cons.IH [OF d in_xs] show ?thesis by (cases x) simp
  qed
qed

lemma getitem_label:
  "distinct (map fst (columns df)) \<Longrightarrow> (c, s) \<in> set (columns df) \<Longrightarrow> getitem df c = Some s"
  by (simp add: getitem_def filter_label)

lemma report_rows_append:
  assumes "distinct (map fst (columns df))" and "set cs \<subseteq> set (columns df)"
  shows "report_rows float_str df (map fst cs) lines
       = Some (lines @ map (\<lambda>(c, s). summary_row float_str c s) cs)"
  using assms(2)
proof (induction cs arbitrary: lines)
  case Nil
  then show ?case by simp
next
  case (Cons x cs)
  obtain c s where x: "x = (c, s)" by (cases x)
  with Cons.prems have "getitem df c = Some s"
    using assms(1) by (simp add: getitem_label)
  moreover have "set cs \<subseteq> set (columns df)" using Cons.prems by simp
  ultimately show ?case using Cons.IH x by simp
qed



section \<open>Structural cleaning: the contract\<close>

lemma last_dropWhile: "dropWhile P xs \<noteq> [] \<Longrightarrow> last (dropWhile P xs) = last xs"
  by (induction xs) (auto split: if_splits)

lemma stripped_strip: "stripped (strip t)"
proof -
  define u where "u = dropWhile isspace t"
  define v where "v = dropWhile isspace (rev u)"
  have s: "strip t = rev v" by (simp add: strip_def u_def v_def)
  show ?thesis
  proof (cases "v = []")
    case True
    with s show ?thesis by (simp add: stripped_def)
  next
    case False
    then have hdv: "\<not> isspace (hd v)" unfolding v_def by (simp add: hd_dropWhile)
    from False have "last v = last (rev u)" unfolding v_def by (rule last_dropWhile)
    moreover from False have u: "u \<noteq> []" unfolding v_def by auto
    ultimately have "last v = hd u" by (simp add: last_rev)
    moreover from u have "\<not> isspace (hd u)" unfolding u_def by (simp add: hd_dropWhile)
    ultimately have "\<not> isspace (last v)" by simp
    with hdv False s show ?thesis by (simp add: stripped_def hd_rev last_rev)
  qed
qed

lemma clean_col9:
  "\<exists>ts. clean_column parse float_str ''col_9'' s = Object (map Some ts)
        \<and> length ts = length (cells s) \<and> list_all stripped ts"
proof -
  let ?ts = "map (\<lambda>c. strip (py_str float_str c)) (cells s)"
  have "clean_column parse float_str ''col_9'' s = Object (map Some ?ts)"
    by (simp add: clean_column_def astype_str_def comp_def)
  moreover have "list_all stripped ?ts" by (simp add: list_all_iff stripped_strip)
  ultimately show ?thesis by (intro exI [of _ ?ts]) simp
qed

lemma to_numeric_numeric: "is_numeric_dtype (to_numeric parse s)"
  by (cases s) (simp_all add: to_numeric_def Let_def)

lemma map_filter_all_some:
  "list_all (\<lambda>p. f p \<noteq> None) ps \<Longrightarrow> map Some (List.map_filter f ps) = map f ps"
  by (induction ps) (auto simp: List.map_filter_simps)

lemma parsed_int_rat: "parsed_int p = Some i \<Longrightarrow> map_option rat_of_num p = Some (of_int i)"
  by (cases p rule: parsed_int.cases) simp_all

lemma to_numeric_Object:
  "map num_of (cells (to_numeric parse (Object xs)))
   = map (\<lambda>c. map_option rat_of_num (Option.bind c parse)) xs"
proof -
  let ?ps = "map (\<lambda>c. Option.bind c parse) xs"
  show ?thesis
  proof (cases "list_all (\<lambda>p. parsed_int p \<noteq> None) ?ps")
    case True
    have "list_all (\<lambda>p. parsed_int p \<noteq> None) ps \<Longrightarrow>
          map num_of (map IntV (List.map_filter parsed_int ps)) = map (map_option rat_of_num) ps" for ps
      by (induction ps) (auto simp: List.map_filter_simps parsed_int_rat)
    from this [OF True] True show ?thesis by (simp add: to_numeric_def Let_def comp_def)
  next
    case False
    have "map num_of (map (case_option NaN FloatV) (map (map_option rat_of_num) ps))
        = map (map_option rat_of_num) ps" for ps :: "num option list"
      by (induction ps) (auto split: option.splits)
    from this [of ?ps] False show ?thesis by (simp add: to_numeric_def Let_def comp_def)
  qed
qed

lemma to_numeric_keeps_numeric: "is_numeric_dtype s \<Longrightarrow> to_numeric parse s = s"
  by (cases s) (simp_all add: to_numeric_def)

lemma length_to_numeric: "length (cells (to_numeric parse s)) = length (cells s)"
proof (cases s)
  case (Object xs)
  have "length (map num_of (cells (to_numeric parse (Object xs)))) = length xs"
    by (simp only: to_numeric_Object length_map)
  with Object show ?thesis by simp
qed (simp_all add: to_numeric_def)

lemma setitem_existing:
  assumes "distinct (map fst (columns f))" and "(c, s) \<in> set (columns f)"
  shows "columns (setitem f c v) = map (\<lambda>(n, old). (n, if n = c then v else old)) (columns f)"
    and "nrows (setitem f c v) = nrows f"
proof -
  from assms(2) have "c \<in> set (map fst (columns f))" by force
  then show "columns (setitem f c v) = map (\<lambda>(n, old). (n, if n = c then v else old)) (columns f)"
    by (auto simp: setitem_def)
  show "nrows (setitem f c v) = nrows f" by (simp add: setitem_def)
qed

lemma clean_loop_columns:
  assumes "out < length h" and "distinct (map fst (columns (h ! out)))"
      and "set cs \<subseteq> set (map fst (columns (h ! out)))" and "distinct cs"
  shows "\<exists>h'. clean_loop parse float_str cs h out = Some h'
          \<and> length h' = length h \<and> (\<forall>a. a \<noteq> out \<longrightarrow> h' ! a = h ! a)
          \<and> nrows (h' ! out) = nrows (h ! out)
          \<and> columns (h' ! out)
              = map (\<lambda>(n, s). (n, if n \<in> set cs then clean_column parse float_str n s else s))
                  (columns (h ! out))"
  using assms
proof (induction cs arbitrary: h)
  case Nil
  then show ?case by (simp add: case_prod_unfold)
next
  case (Cons c cs)
  let ?f = "h ! out"
  from Cons.prems(3) obtain s where s: "(c, s) \<in> set (columns ?f)" by auto
  with Cons.prems(2) have get: "getitem ?f c = Some s" by (simp add: getitem_label)
  let ?v = "clean_column parse float_str c s"
  let ?g = "setitem ?f c ?v"
  let ?h1 = "h[out := ?g]"
  have cols: "columns ?g = map (\<lambda>(n, old). (n, if n = c then ?v else old)) (columns ?f)"
    and rows: "nrows ?g = nrows ?f"
    using setitem_existing [OF Cons.prems(2) s] by simp_all
  have names: "map fst (columns ?g) = map fst (columns ?f)"
    by (simp add: cols comp_def case_prod_unfold)
  have at: "?h1 ! out = ?g" using Cons.prems(1) by simp
  have p1: "out < length ?h1" using Cons.prems(1) by simp
  have p2: "distinct (map fst (columns (?h1 ! out)))" using Cons.prems(2) by (simp add: at names)
  have p3: "set cs \<subseteq> set (map fst (columns (?h1 ! out)))"
    using Cons.prems(3) by (simp add: at names)
  have p4: "distinct cs" and notin: "c \<notin> set cs" using Cons.prems(4) by simp_all
  from Cons.IH [OF p1 p2 p3 p4] obtain h' where
    run: "clean_loop parse float_str cs ?h1 out = Some h'"
    and len: "length h' = length ?h1"
    and other: "\<forall>a. a \<noteq> out \<longrightarrow> h' ! a = ?h1 ! a"
    and nr: "nrows (h' ! out) = nrows (?h1 ! out)"
    and cl: "columns (h' ! out)
              = map (\<lambda>(n, s). (n, if n \<in> set cs then clean_column parse float_str n s else s))
                  (columns (?h1 ! out))"
    by blast
  have same: "\<And>n old. (n, old) \<in> set (columns ?f) \<Longrightarrow> n = c \<Longrightarrow> old = s"
    using Cons.prems(2) s by (meson eq_key_imp_eq_value)
  have "columns (h' ! out)
          = map (\<lambda>(n, s). (n, if n \<in> set (c # cs) then clean_column parse float_str n s else s))
              (columns ?f)"
    unfolding cl at cols using notin same by (auto simp: case_prod_unfold)
  moreover have "clean_loop parse float_str (c # cs) h out = Some h'"
    using get run by simp
  moreover have "\<forall>a. a \<noteq> out \<longrightarrow> h' ! a = h ! a" using other by simp
  moreover have "nrows (h' ! out) = nrows ?f" using nr at rows by simp
  moreover have "length h' = length h" using len by simp
  ultimately show ?case by blast
qed



end
